theory Spec2Isabelle
  imports Main
begin

section \<open>The Docker API reverse proxy of the WSL helper\<close>

text \<open>
  The development embeds \<^verbatim>\<open>src/go/wsl-helper/pkg/dockerproxy/util/reverse_proxy.go\<close>:
  \<^verbatim>\<open>forwardRequest\<close>, its local closure \<^verbatim>\<open>periodicHttpFlush\<close> and
  \<^verbatim>\<open>handleUpgradedConnection\<close>.

  The Go code is a sequence of calls on interfaces (the dial function, the
  \<^verbatim>\<open>http.ResponseWriter\<close>, the backend \<^verbatim>\<open>net.Conn\<close>, the hooks). Each function is
  embedded as the list of the calls it makes, in program order, with the outcome of every
  call that can fail taken from the objects and the environment it is given. A \<^verbatim>\<open>defer\<close>
  is the event appended after the events of the rest of the function body, a \<^verbatim>\<open>panic\<close>
  is an event followed by the deferred calls only.
\<close>

subsection \<open>Constants\<close>

definition hostHeaderValue :: string where
  "hostHeaderValue = ''api.moby.localhost''"

definition targetProtocol :: string where
  "targetProtocol = ''http://''"

abbreviation StatusSwitchingProtocols :: int where
  "StatusSwitchingProtocols \<equiv> 101"

abbreviation StatusOK :: int where
  "StatusOK \<equiv> 200"

abbreviation StatusInternalServerError :: int where
  "StatusInternalServerError \<equiv> 500"

abbreviation StatusBadGateway :: int where
  "StatusBadGateway \<equiv> 502"

subsection \<open>Data\<close>

text \<open>
  \<^verbatim>\<open>http.Header\<close> is \<^verbatim>\<open>map[string][]string\<close>. Where the code ranges over one, it is
  the list of its entries in the order the runtime visits them (Go leaves that order
  open, so every result below holds for every order). The values a header holds for a key
  are read with \<open>values_of\<close>.
\<close>

type_synonym header = "(string \<times> string list) list"


text \<open>A \<^verbatim>\<open>context.Context\<close>: the request's own, or one derived by \<^verbatim>\<open>context.WithCancel\<close>.\<close>

datatype go_context = RequestContext | WithCancel go_context

text \<open>
  The fields of \<^verbatim>\<open>http.Request\<close> the proxy reads or sets. An inbound request carries
  \<open>RequestURI\<close>, an outbound one \<open>URL\<close>. \<open>Body\<close> stands for the body stream.
\<close>

record http_request =
  Method :: string
  URL :: string
  RequestURI :: string
  Header :: header
  Body :: string
  Close :: bool
  Context :: go_context

text \<open>
  \<^verbatim>\<open>http.Response\<close>. The body is a stream: \<open>RespBody\<close> lists the chunks that
  successive reads deliver before the stream ends, with \<^verbatim>\<open>io.EOF\<close> or with a read error
  (the code does the same after either).
\<close>

record http_response =
  StatusCode :: int
  RespHeader :: header
  RespBody :: "string list"

text \<open>
  A \<^verbatim>\<open>net.Conn\<close>: whether its dynamic type implements \<^verbatim>\<open>HalfReadWriteCloser\<close>, and
  the error (if any) of a \<^verbatim>\<open>Write\<close> of given bytes.
\<close>

record conn =
  implementsHalfReadWriteCloser :: bool
  conn_Write :: "string \<Rightarrow> string option"

text \<open>
  The \<^verbatim>\<open>*bufio.ReadWriter\<close> that \<^verbatim>\<open>Hijack\<close> returns: the bytes pending in its writer
  and in its reader, and the errors of \<^verbatim>\<open>Writer.Flush\<close> and \<^verbatim>\<open>Reader.Read\<close>.
\<close>

record bufio_ReadWriter =
  Writer_Buffered :: string
  Writer_Flush :: "string option"
  Reader_Buffered :: string
  Reader_Read :: "string option"

record ReverseProxy =
  Dial :: "string \<Rightarrow> string \<Rightarrow> string + conn"
  Director :: "(http_request \<Rightarrow> http_request) option"
  ModifyResponse :: "(http_response \<Rightarrow> string + http_response) option"

text \<open>
  What the code calls but does not define: the standard library, the response writer
  \<^verbatim>\<open>w\<close> it is handed, and the half-close duplex \<^verbatim>\<open>Pipe\<close> of the same package (its
  source is not among the files embedded here; only its returned error matters).
  \<^item> \<open>NewRequest_err method url\<close>: the error of \<^verbatim>\<open>http.NewRequestWithContext\<close>;
  \<^item> \<open>Request_Write req\<close>: the error of \<^verbatim>\<open>newReq.Write(backendConn)\<close>;
  \<^item> \<open>ReadResponse req\<close>: the result of \<^verbatim>\<open>http.ReadResponse\<close> on the backend connection;
  \<^item> \<open>w_Flusher\<close>: whether \<^verbatim>\<open>w\<close> implements \<^verbatim>\<open>http.Flusher\<close>;
  \<^item> \<open>w_Write n\<close>: the error of the \<open>n\<close>-th \<^verbatim>\<open>w.Write\<close> of the body copy;
  \<^item> \<open>w_Hijack\<close>: the result of \<^verbatim>\<open>rc.Hijack()\<close>;
  \<^item> \<open>Pipe client backend\<close>: the error \<^verbatim>\<open>Pipe\<close> returns.
\<close>

record env =
  NewRequest_err :: "string \<Rightarrow> string \<Rightarrow> string option"
  Request_Write :: "http_request \<Rightarrow> string option"
  ReadResponse :: "http_request \<Rightarrow> string + http_response"
  w_Flusher :: bool
  w_Write :: "nat \<Rightarrow> string option"
  w_Hijack :: "string + (conn \<times> bufio_ReadWriter)"
  Pipe :: "conn \<Rightarrow> conn \<Rightarrow> string option"

subsection \<open>Events\<close>

text \<open>
  One constructor per call the code makes. A call that can fail carries the error it
  returned (\<open>None\<close> for \<^verbatim>\<open>nil\<close>).
\<close>

datatype event =
    DialCall string string
  | NewRequestWithContext go_context string string string
  | DirectorCall
  | RequestWrite http_request "string option"
  | ReadResponseCall
  | ModifyResponseCall
  | HeaderAdd string string
  | WriteHeader int
  | Flush
  | GoPeriodicHttpFlush go_context
  | Write string "string option"
  | HttpError string int
  | Panic string
  | HijackCall "string option"
  | WriterFlush string "string option"
  | ReaderRead "string option"
  | BackendWrite string "string option"
  | PipeCall "string option"
  | ClientClose
  | BackendClose
  | BodyClose
  | Cancel go_context
  | NewTicker nat
  | TickerStop
  | LogPrintln string

subsection \<open>\<^verbatim>\<open>periodicHttpFlush\<close>\<close>

text \<open>
  The closure blocks in \<^verbatim>\<open>select\<close>. What each wait yields is the environment's choice:
  \<open>CtxDone\<close> when the outer \<^verbatim>\<open>select\<close> takes \<^verbatim>\<open>ctx.Done()\<close>, \<open>Tick c\<close> when it takes
  \<^verbatim>\<open>ticker.C\<close>, with \<open>c\<close> telling whether \<^verbatim>\<open>ctx.Done()\<close> is ready at the inner
  \<^verbatim>\<open>select\<close>. The loop is run against a finite schedule of such choices; the second
  component of the result tells whether the closure has returned (\<open>False\<close>: it is still
  waiting when the schedule ends).
\<close>

datatype select_choice = CtxDone | Tick bool

fun flush_loop :: "select_choice list \<Rightarrow> event list \<times> bool" where
  "flush_loop [] = ([], False)"
| "flush_loop (CtxDone # s) = ([], True)"
| "flush_loop (Tick True # s) = ([], True)"
| "flush_loop (Tick False # s) = (Flush # fst (flush_loop s), snd (flush_loop s))"

definition periodicHttpFlush :: "bool \<Rightarrow> select_choice list \<Rightarrow> event list \<times> bool" where
  "periodicHttpFlush flusher_ok s =
     (if \<not> flusher_ok then
        ([NewTicker 100, LogPrintln ''error: ResponseWriter does not support http.Flusher'',
          TickerStop], True)
      else
        (let (evs, returned) = flush_loop s in
         (NewTicker 100 # evs @ (if returned then [TickerStop] else []), returned)))"

subsection \<open>\<^verbatim>\<open>handleUpgradedConnection\<close>\<close>

text \<open>Lines 219 to 242: the two capability checks, then \<^verbatim>\<open>Pipe\<close>.\<close>

definition upgrade_pipe :: "env \<Rightarrow> conn \<Rightarrow> conn \<Rightarrow> event list" where
  "upgrade_pipe e backendConn clientConn =
     (if \<not> implementsHalfReadWriteCloser backendConn then
        [HttpError ''backend connection does not implement HalfReadCloseWriter''
           StatusInternalServerError]
      else if \<not> implementsHalfReadWriteCloser clientConn then
        [HttpError ''client connection does not implement HalfReadCloseWriter''
           StatusInternalServerError]
      else
        (case Pipe e clientConn backendConn of
           Some err \<Rightarrow> [PipeCall (Some err), HttpError err StatusInternalServerError]
         | None \<Rightarrow> [PipeCall None]))"

text \<open>
  Lines 203 to 217: the bytes pending in the hijacked reader. \<^verbatim>\<open>Reader.Read\<close> is given
  a slice as long as \<^verbatim>\<open>Reader.Buffered()\<close>, so on success it delivers all of them.
\<close>

definition upgrade_drain :: "env \<Rightarrow> conn \<Rightarrow> conn \<Rightarrow> bufio_ReadWriter \<Rightarrow> event list" where
  "upgrade_drain e backendConn clientConn b =
     (if length (Reader_Buffered b) > 0 then
        (case Reader_Read b of
           Some err \<Rightarrow> [ReaderRead (Some err), HttpError err StatusInternalServerError]
         | None \<Rightarrow>
             ReaderRead None #
             (case conn_Write backendConn (Reader_Buffered b) of
                Some err \<Rightarrow>
                  [BackendWrite (Reader_Buffered b) (Some err),
                   HttpError err StatusInternalServerError]
              | None \<Rightarrow>
                  BackendWrite (Reader_Buffered b) None #
                  upgrade_pipe e backendConn clientConn))
      else upgrade_pipe e backendConn clientConn)"

text \<open>Lines 195 to 201: the bytes pending in the hijacked writer.\<close>

definition upgrade_flush :: "env \<Rightarrow> conn \<Rightarrow> conn \<Rightarrow> bufio_ReadWriter \<Rightarrow> event list" where
  "upgrade_flush e backendConn clientConn b =
     (if length (Writer_Buffered b) > 0 then
        (case Writer_Flush b of
           Some err \<Rightarrow>
             [WriterFlush (Writer_Buffered b) (Some err),
              HttpError err StatusInternalServerError]
         | None \<Rightarrow>
             WriterFlush (Writer_Buffered b) None #
             upgrade_drain e backendConn clientConn b)
      else upgrade_drain e backendConn clientConn b)"

definition handleUpgradedConnection :: "env \<Rightarrow> conn \<Rightarrow> event list" where
  "handleUpgradedConnection e backendConn =
     (case w_Hijack e of
        Inl err \<Rightarrow> [HijackCall (Some err), HttpError err StatusInternalServerError]
      | Inr (clientConn, bufferedClientConn) \<Rightarrow>
          HijackCall None #
          upgrade_flush e backendConn clientConn bufferedClientConn @ [ClientClose])"

subsection \<open>\<^verbatim>\<open>forwardRequest\<close>\<close>

text \<open>The header loop of lines 142 to 146.\<close>

definition copyHeader :: "header \<Rightarrow> event list" where
  "copyHeader h = concat (map (\<lambda>(key, vals). map (HeaderAdd key) vals) h)"

text \<open>
  \<^verbatim>\<open>io.Copy(w, backendResponse.Body)\<close>: every chunk read is written before the next
  read; the copy ends at the first failing write, or when the stream ends.
\<close>

fun io_Copy :: "(nat \<Rightarrow> string option) \<Rightarrow> nat \<Rightarrow> string list \<Rightarrow> event list" where
  "io_Copy wr n [] = []"
| "io_Copy wr n (c # cs) =
     (case wr n of
        Some err \<Rightarrow> [Write c (Some err)]
      | None \<Rightarrow> Write c None # io_Copy wr (Suc n) cs)"

text \<open>Lines 141 to 170, from the header copy to the end of the body copy.\<close>

definition forwardRequest_respond ::
  "env \<Rightarrow> go_context \<Rightarrow> conn \<Rightarrow> http_response \<Rightarrow> event list" where
  "forwardRequest_respond e ctx backendConn backendResponse =
     copyHeader (RespHeader backendResponse) @
     WriteHeader (StatusCode backendResponse) #
     (if \<not> w_Flusher e then [Panic ''expected http.ResponseWriter to be an http.Flusher'']
      else
        Flush #
        (if StatusCode backendResponse = StatusSwitchingProtocols then
           handleUpgradedConnection e backendConn
         else
           GoPeriodicHttpFlush ctx # io_Copy (w_Write e) 0 (RespBody backendResponse)))"

text \<open>
  Lines 100 to 114: the outbound request, as \<^verbatim>\<open>http.NewRequestWithContext\<close> returns it
  on success (method, URL and body as given, an empty header), then the header
  assignment, the \<^verbatim>\<open>Director\<close> hook and \<^verbatim>\<open>newReq.Close = false\<close>.
\<close>

definition outbound_url :: "http_request \<Rightarrow> string" where
  "outbound_url r = targetProtocol @ hostHeaderValue @ RequestURI r"

definition newRequest :: "go_context \<Rightarrow> http_request \<Rightarrow> http_request" where
  "newRequest ctx r =
     \<lparr>Method = Method r, URL = outbound_url r, RequestURI = [], Header = [],
      Body = Body r, Close = False, Context = ctx\<rparr>"

text \<open>
  The two hooks are optional fields: a hook that is \<^verbatim>\<open>nil\<close> is not called and leaves
  its argument as it is. \<^verbatim>\<open>Director\<close> has no error result, \<^verbatim>\<open>ModifyResponse\<close> has one.
\<close>

definition directorCall :: "ReverseProxy \<Rightarrow> event list" where
  "directorCall proxy = (case Director proxy of None \<Rightarrow> [] | Some director \<Rightarrow> [DirectorCall])"

definition applyDirector :: "ReverseProxy \<Rightarrow> http_request \<Rightarrow> http_request" where
  "applyDirector proxy newReq =
     (case Director proxy of None \<Rightarrow> newReq | Some director \<Rightarrow> director newReq)"

definition modifyResponseCall :: "ReverseProxy \<Rightarrow> event list" where
  "modifyResponseCall proxy =
     (case ModifyResponse proxy of None \<Rightarrow> [] | Some modify \<Rightarrow> [ModifyResponseCall])"

definition applyModifyResponse :: "ReverseProxy \<Rightarrow> http_response \<Rightarrow> string + http_response" where
  "applyModifyResponse proxy resp =
     (case ModifyResponse proxy of None \<Rightarrow> Inr resp | Some modify \<Rightarrow> modify resp)"

definition outbound :: "ReverseProxy \<Rightarrow> go_context \<Rightarrow> http_request \<Rightarrow> http_request" where
  "outbound proxy ctx r =
     (let newReq = (newRequest ctx r)\<lparr>Header := Header r\<rparr>;
          newReq = applyDirector proxy newReq
      in newReq\<lparr>Close := False\<rparr>)"

text \<open>Lines 123 to 139 and what follows them, with the deferred \<^verbatim>\<open>Body.Close\<close>.\<close>

definition forwardRequest_read ::
  "ReverseProxy \<Rightarrow> env \<Rightarrow> go_context \<Rightarrow> conn \<Rightarrow> http_request \<Rightarrow> event list" where
  "forwardRequest_read proxy e ctx backendConn newReq =
     ReadResponseCall #
     (case ReadResponse e newReq of
        Inl err \<Rightarrow> [HttpError err StatusBadGateway]
      | Inr backendResponse \<Rightarrow>
          modifyResponseCall proxy @
          (case applyModifyResponse proxy backendResponse of
             Inl err \<Rightarrow> [HttpError err StatusBadGateway]
           | Inr modified \<Rightarrow> forwardRequest_respond e ctx backendConn modified)
          @ [BodyClose])"

text \<open>Lines 99 to 121 and what follows them.\<close>

definition forwardRequest_send ::
  "ReverseProxy \<Rightarrow> env \<Rightarrow> go_context \<Rightarrow> conn \<Rightarrow> http_request \<Rightarrow> event list" where
  "forwardRequest_send proxy e ctx backendConn r =
     NewRequestWithContext ctx (Method r) (outbound_url r) (Body r) #
     (case NewRequest_err e (Method r) (outbound_url r) of
        Some err \<Rightarrow> [HttpError err StatusInternalServerError]
      | None \<Rightarrow>
          directorCall proxy @
          (case Request_Write e (outbound proxy ctx r) of
             Some err \<Rightarrow>
               [RequestWrite (outbound proxy ctx r) (Some err), HttpError err StatusBadGateway]
           | None \<Rightarrow>
               RequestWrite (outbound proxy ctx r) None #
               forwardRequest_read proxy e ctx backendConn (outbound proxy ctx r)))"

text \<open>
  The whole function: the derived context with its deferred \<^verbatim>\<open>cancel\<close>, the dial on
  line 92, and the deferred \<^verbatim>\<open>backendConn.Close\<close>.
\<close>

definition forwardRequest :: "ReverseProxy \<Rightarrow> env \<Rightarrow> http_request \<Rightarrow> event list" where
  "forwardRequest proxy e r =
     (let ctx = WithCancel (Context r) in
      DialCall [] [] #
      (case Dial proxy [] [] of
         Inl err \<Rightarrow> [HttpError err StatusBadGateway]
       | Inr backendConn \<Rightarrow> forwardRequest_send proxy e ctx backendConn r @ [BackendClose])
      @ [Cancel ctx])"

subsection \<open>The response writer\<close>

text \<open>
  What the calls on \<^verbatim>\<open>w\<close> amount to for the client, after the contract of
  \<^verbatim>\<open>http.ResponseWriter\<close>, \<^verbatim>\<open>http.Flusher\<close>, \<^verbatim>\<open>http.Hijacker\<close> and
  \<^verbatim>\<open>http.Error\<close>:
  \<^item> \<^verbatim>\<open>Header().Add\<close> appends a value to the key's values in the handler's header;
  \<^item> the first \<^verbatim>\<open>WriteHeader\<close> commits the status and the header as it then is, a
    later one is ignored;
  \<^item> \<^verbatim>\<open>Flush\<close> and \<^verbatim>\<open>Write\<close> commit \<^verbatim>\<open>200\<close> first when nothing is committed;
  \<^item> \<^verbatim>\<open>http.Error\<close> sets two header keys, calls \<^verbatim>\<open>WriteHeader\<close> and writes the
    message and a newline;
  \<^item> once the connection is hijacked, \<^verbatim>\<open>WriteHeader\<close> and \<^verbatim>\<open>Write\<close> send nothing
    (\<^verbatim>\<open>http.ErrHijacked\<close>); bytes then reach the client through the hijacked
    connection only, here the flush of its buffered writer.
  A header is read as the function from a key to its values, \<open>[]\<close> for an absent key.
  Header keys are taken in their canonical form, as \<^verbatim>\<open>http.ReadResponse\<close> delivers them,
  and every status passed to \<^verbatim>\<open>WriteHeader\<close> is taken as a final one: the interim
  responses that \<^verbatim>\<open>net/http\<close> sends for the informational codes other than 101 are
  not told apart.
\<close>

record response_writer =
  handlerHeader :: "string \<Rightarrow> string list"
  wroteHeader :: bool
  status :: int
  sentHeader :: "string \<Rightarrow> string list"
  sentBody :: string
  hijacked :: bool
  sentRaw :: string

definition fresh_writer :: response_writer where
  "fresh_writer =
     \<lparr>handlerHeader = (\<lambda>k. []), wroteHeader = False, status = 0, sentHeader = (\<lambda>k. []),
      sentBody = [], hijacked = False, sentRaw = []\<rparr>"

definition rw_WriteHeader :: "int \<Rightarrow> response_writer \<Rightarrow> response_writer" where
  "rw_WriteHeader code w =
     (if hijacked w \<or> wroteHeader w then w
      else w\<lparr>wroteHeader := True, status := code, sentHeader := handlerHeader w\<rparr>)"

definition rw_Write :: "string \<Rightarrow> string option \<Rightarrow> response_writer \<Rightarrow> response_writer" where
  "rw_Write p err w =
     (if hijacked w then w
      else
        (let w' = rw_WriteHeader StatusOK w in
         (case err of None \<Rightarrow> w'\<lparr>sentBody := sentBody w' @ p\<rparr> | Some x \<Rightarrow> w')))"

definition rw_Error :: "string \<Rightarrow> int \<Rightarrow> response_writer \<Rightarrow> response_writer" where
  "rw_Error msg code w =
     rw_Write (msg @ [CHR 0x0A]) None
       (rw_WriteHeader code
          (w\<lparr>handlerHeader := (handlerHeader w)
               (''Content-Type'' := [''text/plain; charset=utf-8''],
                ''X-Content-Type-Options'' := [''nosniff''])\<rparr>))"

fun rw_step :: "event \<Rightarrow> response_writer \<Rightarrow> response_writer" where
  "rw_step (HeaderAdd k v) w = w\<lparr>handlerHeader := (handlerHeader w)(k := handlerHeader w k @ [v])\<rparr>"
| "rw_step (WriteHeader code) w = rw_WriteHeader code w"
| "rw_step Flush w = rw_WriteHeader StatusOK w"
| "rw_step (Write p err) w = rw_Write p err w"
| "rw_step (HttpError msg code) w = rw_Error msg code w"
| "rw_step (HijackCall None) w = w\<lparr>hijacked := True\<rparr>"
| "rw_step (WriterFlush p None) w = w\<lparr>sentRaw := sentRaw w @ p\<rparr>"
| "rw_step ev w = w"

definition client_view :: "event list \<Rightarrow> response_writer" where
  "client_view t = fold rw_step t fresh_writer"

subsection \<open>Projections of a trace\<close>

fun is_w_call :: "event \<Rightarrow> bool" where
  "is_w_call (HeaderAdd k v) = True"
| "is_w_call (WriteHeader code) = True"
| "is_w_call Flush = True"
| "is_w_call (Write p err) = True"
| "is_w_call (HttpError msg code) = True"
| "is_w_call ev = False"

definition w_calls :: "event list \<Rightarrow> event list" where
  "w_calls t = filter is_w_call t"

fun is_DialCall :: "event \<Rightarrow> bool" where
  "is_DialCall (DialCall network addr) = True"
| "is_DialCall ev = False"

fun is_RequestWrite :: "event \<Rightarrow> bool" where
  "is_RequestWrite (RequestWrite q err) = True"
| "is_RequestWrite ev = False"

fun is_PipeCall :: "event \<Rightarrow> bool" where
  "is_PipeCall (PipeCall err) = True"
| "is_PipeCall ev = False"

fun is_HttpError :: "event \<Rightarrow> bool" where
  "is_HttpError (HttpError msg code) = True"
| "is_HttpError ev = False"


fun is_GoPeriodicHttpFlush :: "event \<Rightarrow> bool" where
  "is_GoPeriodicHttpFlush (GoPeriodicHttpFlush ctx) = True"
| "is_GoPeriodicHttpFlush ev = False"

fun is_HijackCall :: "event \<Rightarrow> bool" where
  "is_HijackCall (HijackCall err) = True"
| "is_HijackCall ev = False"


subsection \<open>Sample inputs\<close>

text \<open>
  A backend connection with half-close, one without; a list request; the reply
  \<^verbatim>\<open>HTTP/1.1 200 OK\<close> with \<^verbatim>\<open>Content-Length: 5\<close> and body \<^verbatim>\<open>hello\<close> read in two
  chunks; an upgrade reply; a proxy without hooks and an environment where every call
  succeeds and the hijacked connection holds pending bytes on both sides.
\<close>

definition sample_conn :: conn where
  "sample_conn = \<lparr>implementsHalfReadWriteCloser = True, conn_Write = (\<lambda>p. None)\<rparr>"

definition plain_conn :: conn where
  "plain_conn = \<lparr>implementsHalfReadWriteCloser = False, conn_Write = (\<lambda>p. None)\<rparr>"

definition sample_request :: http_request where
  "sample_request =
     \<lparr>Method = ''GET'', URL = [], RequestURI = ''/containers/json?all=1'',
      Header = [(''Accept'', [''*/*''])], Body = [], Close = True, Context = RequestContext\<rparr>"

definition sample_response :: http_response where
  "sample_response =
     \<lparr>StatusCode = 200,
      RespHeader = [(''Content-Length'', [''5'']), (''Warning'', [''a'', ''b''])],
      RespBody = [''hel'', ''lo'']\<rparr>"

definition upgrade_response :: http_response where
  "upgrade_response =
     \<lparr>StatusCode = 101,
      RespHeader = [(''Connection'', [''Upgrade'']), (''Upgrade'', [''tcp''])],
      RespBody = []\<rparr>"

definition sample_buffers :: bufio_ReadWriter where
  "sample_buffers =
     \<lparr>Writer_Buffered = ''xy'', Writer_Flush = None,
      Reader_Buffered = ''PONG'', Reader_Read = None\<rparr>"

definition sample_proxy :: ReverseProxy where
  "sample_proxy =
     \<lparr>Dial = (\<lambda>network addr. Inr sample_conn), Director = None, ModifyResponse = None\<rparr>"

definition sample_env :: env where
  "sample_env =
     \<lparr>NewRequest_err = (\<lambda>method url. None),
      Request_Write = (\<lambda>q. None),
      ReadResponse = (\<lambda>q. Inr sample_response),
      w_Flusher = True,
      w_Write = (\<lambda>n. None),
      w_Hijack = Inr (sample_conn, sample_buffers),
      Pipe = (\<lambda>a b. None)\<rparr>"

definition upgrade_env :: env where
  "upgrade_env = sample_env\<lparr>ReadResponse := (\<lambda>q. Inr upgrade_response)\<rparr>"

definition refusing_proxy :: ReverseProxy where
  "refusing_proxy = sample_proxy\<lparr>Dial := (\<lambda>network addr. Inl ''connection refused'')\<rparr>"

definition rejecting_proxy :: ReverseProxy where
  "rejecting_proxy = sample_proxy\<lparr>ModifyResponse := Some (\<lambda>resp. Inl ''rejected'')\<rparr>"

definition broken_env :: env where
  "broken_env = sample_env\<lparr>Request_Write := (\<lambda>q. Some ''broken pipe'')\<rparr>"

definition garbled_env :: env where
  "garbled_env = sample_env\<lparr>ReadResponse := (\<lambda>q. Inl ''malformed HTTP response'')\<rparr>"

definition unbuildable_env :: env where
  "unbuildable_env = sample_env\<lparr>NewRequest_err := (\<lambda>method url. Some ''invalid method'')\<rparr>"

definition rewriting_proxy :: ReverseProxy where
  "rewriting_proxy =
     sample_proxy\<lparr>Director := Some (\<lambda>q. q\<lparr>Method := ''POST'', Close := True\<rparr>)\<rparr>"

definition deaf_env :: env where
  "deaf_env = sample_env\<lparr>w_Flusher := False\<rparr>"

definition plain_proxy :: ReverseProxy where
  "plain_proxy = sample_proxy\<lparr>Dial := (\<lambda>network addr. Inr plain_conn)\<rparr>"

section \<open>Properties\<close>

lemmas sample_defs = sample_conn_def plain_conn_def sample_request_def sample_response_def
  upgrade_response_def sample_buffers_def sample_proxy_def sample_env_def upgrade_env_def
  refusing_proxy_def rejecting_proxy_def broken_env_def garbled_env_def
  unbuildable_env_def rewriting_proxy_def deaf_env_def plain_proxy_def

lemmas upgrade_defs = handleUpgradedConnection_def upgrade_flush_def upgrade_drain_def
  upgrade_pipe_def

lemmas rw_defs = client_view_def fresh_writer_def rw_WriteHeader_def rw_Write_def rw_Error_def

lemmas request_defs = outbound_def newRequest_def outbound_url_def applyDirector_def
  targetProtocol_def hostHeaderValue_def

subsection \<open>The trace, stage by stage\<close>

lemma forwardRequest_dial_failed:
  "Dial proxy [] [] = Inl err \<Longrightarrow>
   forwardRequest proxy e r =
     [DialCall [] [], HttpError err StatusBadGateway, Cancel (WithCancel (Context r))]"
  by (simp add: forwardRequest_def)

lemma forwardRequest_dialed:
  "Dial proxy [] [] = Inr backendConn \<Longrightarrow>
   forwardRequest proxy e r =
     DialCall [] [] # forwardRequest_send proxy e (WithCancel (Context r)) backendConn r
       @ [BackendClose, Cancel (WithCancel (Context r))]"
  by (simp add: forwardRequest_def Let_def)

lemma send_request_failed:
  "NewRequest_err e (Method r) (outbound_url r) = Some err \<Longrightarrow>
   forwardRequest_send proxy e ctx backendConn r =
     [NewRequestWithContext ctx (Method r) (outbound_url r) (Body r),
      HttpError err StatusInternalServerError]"
  by (simp add: forwardRequest_send_def)

lemma send_write_failed:
  "NewRequest_err e (Method r) (outbound_url r) = None \<Longrightarrow>
   Request_Write e (outbound proxy ctx r) = Some err \<Longrightarrow>
   forwardRequest_send proxy e ctx backendConn r =
     NewRequestWithContext ctx (Method r) (outbound_url r) (Body r) # directorCall proxy @
     [RequestWrite (outbound proxy ctx r) (Some err), HttpError err StatusBadGateway]"
  by (simp add: forwardRequest_send_def)

lemma send_written:
  "NewRequest_err e (Method r) (outbound_url r) = None \<Longrightarrow>
   Request_Write e (outbound proxy ctx r) = None \<Longrightarrow>
   forwardRequest_send proxy e ctx backendConn r =
     NewRequestWithContext ctx (Method r) (outbound_url r) (Body r) # directorCall proxy @
     RequestWrite (outbound proxy ctx r) None #
     forwardRequest_read proxy e ctx backendConn (outbound proxy ctx r)"
  by (simp add: forwardRequest_send_def)

lemma read_failed:
  "ReadResponse e q = Inl err \<Longrightarrow>
   forwardRequest_read proxy e ctx backendConn q =
     [ReadResponseCall, HttpError err StatusBadGateway]"
  by (simp add: forwardRequest_read_def)

lemma read_hook_failed:
  "ReadResponse e q = Inr backendResponse \<Longrightarrow>
   applyModifyResponse proxy backendResponse = Inl err \<Longrightarrow>
   forwardRequest_read proxy e ctx backendConn q =
     ReadResponseCall # modifyResponseCall proxy @ [HttpError err StatusBadGateway, BodyClose]"
  by (simp add: forwardRequest_read_def)

lemma read_done:
  "ReadResponse e q = Inr backendResponse \<Longrightarrow>
   applyModifyResponse proxy backendResponse = Inr resp \<Longrightarrow>
   forwardRequest_read proxy e ctx backendConn q =
     ReadResponseCall # modifyResponseCall proxy @
     forwardRequest_respond e ctx backendConn resp @ [BodyClose]"
  by (simp add: forwardRequest_read_def)

subsection \<open>Hook events are invisible to the projections\<close>

lemma directorCall_cases: "directorCall proxy = [] \<or> directorCall proxy = [DirectorCall]"
  by (simp add: directorCall_def split: option.splits)

lemma modifyResponseCall_cases:
  "modifyResponseCall proxy = [] \<or> modifyResponseCall proxy = [ModifyResponseCall]"
  by (simp add: modifyResponseCall_def split: option.splits)

lemma filter_directorCall [simp]:
  "filter is_w_call (directorCall proxy) = []"
  "filter is_DialCall (directorCall proxy) = []"
  "filter is_RequestWrite (directorCall proxy) = []"
  "filter is_GoPeriodicHttpFlush (directorCall proxy) = []"
  "filter is_HijackCall (directorCall proxy) = []"
  "filter is_HttpError (directorCall proxy) = []"
  using directorCall_cases [of proxy] by auto

lemma filter_modifyResponseCall [simp]:
  "filter is_w_call (modifyResponseCall proxy) = []"
  "filter is_DialCall (modifyResponseCall proxy) = []"
  "filter is_RequestWrite (modifyResponseCall proxy) = []"
  "filter is_GoPeriodicHttpFlush (modifyResponseCall proxy) = []"
  "filter is_HijackCall (modifyResponseCall proxy) = []"
  "filter is_HttpError (modifyResponseCall proxy) = []"
  using modifyResponseCall_cases [of proxy] by auto

lemma dropWhile_directorCall [simp]:
  "dropWhile (\<lambda>ev. \<not> is_HttpError ev) (directorCall proxy @ t) =
   dropWhile (\<lambda>ev. \<not> is_HttpError ev) t"
  using directorCall_cases [of proxy] by auto

lemma dropWhile_modifyResponseCall [simp]:
  "dropWhile (\<lambda>ev. \<not> is_HttpError ev) (modifyResponseCall proxy @ t) =
   dropWhile (\<lambda>ev. \<not> is_HttpError ev) t"
  using modifyResponseCall_cases [of proxy] by auto

lemma fold_directorCall [simp]: "fold rw_step (directorCall proxy) w = w"
  using directorCall_cases [of proxy] by auto

lemma fold_modifyResponseCall [simp]: "fold rw_step (modifyResponseCall proxy) w = w"
  using modifyResponseCall_cases [of proxy] by auto

subsection \<open>Dial count\<close>

lemma dial_count_copyHeader [simp]: "filter is_DialCall (copyHeader h) = []"
  by (induction h) (auto simp: copyHeader_def)

lemma dial_count_io_Copy [simp]: "filter is_DialCall (io_Copy wr n cs) = []"
  by (induction cs arbitrary: n) (auto split: option.splits)

lemma dial_count_upgrade [simp]: "filter is_DialCall (handleUpgradedConnection e c) = []"
  by (auto simp: upgrade_defs split: sum.splits option.splits)

lemma dial_count_respond [simp]: "filter is_DialCall (forwardRequest_respond e ctx c resp) = []"
  by (simp add: forwardRequest_respond_def)

lemma dial_count_read [simp]: "filter is_DialCall (forwardRequest_read proxy e ctx c q) = []"
  by (simp add: forwardRequest_read_def split: sum.splits)

lemma dial_count_send [simp]: "filter is_DialCall (forwardRequest_send proxy e ctx c r) = []"
  by (simp add: forwardRequest_send_def split: option.splits)

lemma dial_once: "length (filter is_DialCall (forwardRequest proxy e r)) = 1"
  by (simp add: forwardRequest_def Let_def split: sum.splits)

lemma error_view:
  "status (rw_Error err code fresh_writer) = code"
  "wroteHeader (rw_Error err code fresh_writer)"
  "sentBody (rw_Error err code fresh_writer) = err @ [CHR 0x0A]"
  by (simp_all add: rw_defs)

subsection \<open>The periodic flusher\<close>

lemma flush_loop_ticks_done:
  "flush_loop (replicate n (Tick False) @ CtxDone # s) = (replicate n Flush, True)"
  by (induction n) simp_all

lemma flush_loop_ticks_cancelled:
  "flush_loop (replicate n (Tick False) @ Tick True # s) = (replicate n Flush, True)"
  by (induction n) simp_all

lemma flush_loop_ticks_only:
  "flush_loop (replicate n (Tick False)) = (replicate n Flush, False)"
  by (induction n) simp_all

text \<open>
  Claim C8. \<^verbatim>\<open>periodicHttpFlush\<close> creates a ticker of 100 milliseconds. A sink that is
  no \<^verbatim>\<open>http.Flusher\<close> makes it log and return without a single flush. Otherwise it
  flushes once per tick taken while the context is live, and returns, flushing no more,
  as soon as a wait yields the cancellation or a tick finds the context cancelled in the
  interim; without cancellation it keeps waiting.
\<close>

theorem periodicHttpFlush_contract:
  "periodicHttpFlush False s =
     ([NewTicker 100, LogPrintln ''error: ResponseWriter does not support http.Flusher'',
       TickerStop], True)
   \<and> periodicHttpFlush True (replicate n (Tick False) @ CtxDone # s) =
     (NewTicker 100 # replicate n Flush @ [TickerStop], True)
   \<and> periodicHttpFlush True (replicate n (Tick False) @ Tick True # s) =
     (NewTicker 100 # replicate n Flush @ [TickerStop], True)
   \<and> periodicHttpFlush True (replicate n (Tick False)) =
     (NewTicker 100 # replicate n Flush, False)"
  by (simp add: periodicHttpFlush_def flush_loop_ticks_done flush_loop_ticks_cancelled
      flush_loop_ticks_only)

subsection \<open>Failures before the response is committed\<close>

text \<open>
  Claim C4. Every run calls the dial function exactly once. When the dial, the write of
  the outbound request, the parse of the backend response or the \<^verbatim>\<open>ModifyResponse\<close>
  hook fails, the only call on the response writer is \<^verbatim>\<open>http.Error\<close> with 502, the
  client's status is 502, and after that call only the deferred calls run.
\<close>

theorem bad_gateway:
  "length (filter is_DialCall (forwardRequest proxy e r)) = 1
   \<and> (Dial proxy [] [] = Inl err \<longrightarrow>
        dropWhile (\<lambda>ev. \<not> is_HttpError ev) (forwardRequest proxy e r) =
          [HttpError err StatusBadGateway, Cancel (WithCancel (Context r))]
        \<and> w_calls (forwardRequest proxy e r) = [HttpError err StatusBadGateway]
        \<and> status (client_view (forwardRequest proxy e r)) = StatusBadGateway)
   \<and> (Dial proxy [] [] = Inr backendConn
        \<and> NewRequest_err e (Method r) (outbound_url r) = None
        \<and> Request_Write e (outbound proxy (WithCancel (Context r)) r) = Some err \<longrightarrow>
        dropWhile (\<lambda>ev. \<not> is_HttpError ev) (forwardRequest proxy e r) =
          [HttpError err StatusBadGateway, BackendClose, Cancel (WithCancel (Context r))]
        \<and> w_calls (forwardRequest proxy e r) = [HttpError err StatusBadGateway]
        \<and> status (client_view (forwardRequest proxy e r)) = StatusBadGateway)
   \<and> (Dial proxy [] [] = Inr backendConn
        \<and> NewRequest_err e (Method r) (outbound_url r) = None
        \<and> Request_Write e (outbound proxy (WithCancel (Context r)) r) = None
        \<and> ReadResponse e (outbound proxy (WithCancel (Context r)) r) = Inl err \<longrightarrow>
        dropWhile (\<lambda>ev. \<not> is_HttpError ev) (forwardRequest proxy e r) =
          [HttpError err StatusBadGateway, BackendClose, Cancel (WithCancel (Context r))]
        \<and> w_calls (forwardRequest proxy e r) = [HttpError err StatusBadGateway]
        \<and> status (client_view (forwardRequest proxy e r)) = StatusBadGateway)
   \<and> (Dial proxy [] [] = Inr backendConn
        \<and> NewRequest_err e (Method r) (outbound_url r) = None
        \<and> Request_Write e (outbound proxy (WithCancel (Context r)) r) = None
        \<and> ReadResponse e (outbound proxy (WithCancel (Context r)) r) = Inr backendResponse
        \<and> applyModifyResponse proxy backendResponse = Inl err \<longrightarrow>
        dropWhile (\<lambda>ev. \<not> is_HttpError ev) (forwardRequest proxy e r) =
          [HttpError err StatusBadGateway, BodyClose, BackendClose,
           Cancel (WithCancel (Context r))]
        \<and> w_calls (forwardRequest proxy e r) = [HttpError err StatusBadGateway]
        \<and> status (client_view (forwardRequest proxy e r)) = StatusBadGateway)"
proof (intro conjI impI)
  show "length (filter is_DialCall (forwardRequest proxy e r)) = 1" by (rule dial_once)
qed (simp_all add: forwardRequest_dial_failed forwardRequest_dialed send_write_failed
      send_written read_failed read_hook_failed w_calls_def client_view_def
      error_view)

theorem bad_gateway_witness:
  "(Dial refusing_proxy [] [] = Inl ''connection refused''
    \<and> w_calls (forwardRequest refusing_proxy sample_env sample_request) =
        [HttpError ''connection refused'' StatusBadGateway])
   \<and> (Request_Write broken_env
         (outbound sample_proxy (WithCancel (Context sample_request)) sample_request) =
        Some ''broken pipe''
      \<and> w_calls (forwardRequest sample_proxy broken_env sample_request) =
          [HttpError ''broken pipe'' StatusBadGateway])
   \<and> (ReadResponse garbled_env
         (outbound sample_proxy (WithCancel (Context sample_request)) sample_request) =
        Inl ''malformed HTTP response''
      \<and> w_calls (forwardRequest sample_proxy garbled_env sample_request) =
          [HttpError ''malformed HTTP response'' StatusBadGateway])
   \<and> (applyModifyResponse rejecting_proxy sample_response = Inl ''rejected''
      \<and> w_calls (forwardRequest rejecting_proxy sample_env sample_request) =
          [HttpError ''rejected'' StatusBadGateway])"
  using bad_gateway [where proxy = refusing_proxy and e = sample_env and r = sample_request
      and err = "''connection refused''" and backendConn = sample_conn
      and backendResponse = sample_response]
    bad_gateway [where proxy = sample_proxy and e = broken_env and r = sample_request
      and err = "''broken pipe''" and backendConn = sample_conn
      and backendResponse = sample_response]
    bad_gateway [where proxy = sample_proxy and e = garbled_env and r = sample_request
      and err = "''malformed HTTP response''" and backendConn = sample_conn
      and backendResponse = sample_response]
    bad_gateway [where proxy = rejecting_proxy and e = sample_env and r = sample_request
      and err = "''rejected''" and backendConn = sample_conn
      and backendResponse = sample_response]
  by (simp add: sample_defs applyModifyResponse_def)

subsection \<open>Generic segment lemmas\<close>

lemma filter_copyHeader:
  "(\<And>k v. \<not> P (HeaderAdd k v)) \<Longrightarrow> filter P (copyHeader h) = []"
  by (induction h) (auto simp: copyHeader_def)

lemma filter_io_Copy:
  "(\<And>p err. \<not> P (Write p err)) \<Longrightarrow> filter P (io_Copy wr n cs) = []"
  by (induction cs arbitrary: n) (auto split: option.splits)

lemma w_calls_copyHeader [simp]: "filter is_w_call (copyHeader h) = copyHeader h"
  by (induction h) (auto simp: copyHeader_def)

lemma w_calls_io_Copy [simp]: "filter is_w_call (io_Copy wr n cs) = io_Copy wr n cs"
  by (induction cs arbitrary: n) (auto split: option.splits)


lemma dropWhile_copyHeader:
  "(\<And>k v. P (HeaderAdd k v)) \<Longrightarrow> dropWhile P (copyHeader h @ t) = dropWhile P t"
proof -
  assume a: "\<And>k v. P (HeaderAdd k v)"
  have "\<forall>ev \<in> set (copyHeader h). P ev"
    by (auto simp: copyHeader_def a)
  then show ?thesis by (simp add: dropWhile_append)
qed

subsection \<open>From the header copy on\<close>

lemma respond_panic:
  "\<not> w_Flusher e \<Longrightarrow>
   forwardRequest_respond e ctx backendConn resp =
     copyHeader (RespHeader resp) @
     [WriteHeader (StatusCode resp), Panic ''expected http.ResponseWriter to be an http.Flusher'']"
  by (simp add: forwardRequest_respond_def)

lemma respond_upgrade:
  "w_Flusher e \<Longrightarrow> StatusCode resp = StatusSwitchingProtocols \<Longrightarrow>
   forwardRequest_respond e ctx backendConn resp =
     copyHeader (RespHeader resp) @ [WriteHeader (StatusCode resp), Flush] @
     handleUpgradedConnection e backendConn"
  by (simp add: forwardRequest_respond_def)

lemma respond_stream:
  "w_Flusher e \<Longrightarrow> StatusCode resp \<noteq> StatusSwitchingProtocols \<Longrightarrow>
   forwardRequest_respond e ctx backendConn resp =
     copyHeader (RespHeader resp) @ [WriteHeader (StatusCode resp), Flush] @
     GoPeriodicHttpFlush ctx # io_Copy (w_Write e) 0 (RespBody resp)"
  by (simp add: forwardRequest_respond_def)

lemma forwardRequest_responded:
  assumes "Dial proxy [] [] = Inr backendConn"
    and "NewRequest_err e (Method r) (outbound_url r) = None"
    and "Request_Write e (outbound proxy (WithCancel (Context r)) r) = None"
    and "ReadResponse e (outbound proxy (WithCancel (Context r)) r) = Inr backendResponse"
    and "applyModifyResponse proxy backendResponse = Inr resp"
  shows "forwardRequest proxy e r =
     DialCall [] [] #
     NewRequestWithContext (WithCancel (Context r)) (Method r) (outbound_url r) (Body r) #
     directorCall proxy @
     RequestWrite (outbound proxy (WithCancel (Context r)) r) None #
     ReadResponseCall #
     modifyResponseCall proxy @
     forwardRequest_respond e (WithCancel (Context r)) backendConn resp @
     [BodyClose, BackendClose, Cancel (WithCancel (Context r))]"
  using assms by (simp add: forwardRequest_dialed send_written read_done)

subsection \<open>What the client is sent\<close>






subsection \<open>The streamed response\<close>




subsection \<open>The outbound request\<close>

text \<open>
  Claim C10. When \<^verbatim>\<open>http.NewRequestWithContext\<close> fails, nothing has been written to the
  client yet; the run is the dial, the failed construction, \<^verbatim>\<open>http.Error\<close> with 500
  (not 502), and the deferred close of the backend connection and \<^verbatim>\<open>cancel\<close>.
\<close>

theorem request_construction_failure:
  assumes "Dial proxy [] [] = Inr backendConn"
    and "NewRequest_err e (Method r) (outbound_url r) = Some err"
  shows "forwardRequest proxy e r =
           [DialCall [] [],
            NewRequestWithContext (WithCancel (Context r)) (Method r) (outbound_url r) (Body r),
            HttpError err StatusInternalServerError,
            BackendClose, Cancel (WithCancel (Context r))]
         \<and> w_calls (forwardRequest proxy e r) = [HttpError err StatusInternalServerError]
         \<and> status (client_view (forwardRequest proxy e r)) = StatusInternalServerError"
  using assms
  by (simp add: forwardRequest_dialed send_request_failed w_calls_def client_view_def error_view)

theorem request_construction_failure_witness:
  "Dial sample_proxy [] [] = Inr sample_conn
   \<and> NewRequest_err unbuildable_env (Method sample_request) (outbound_url sample_request) =
       Some ''invalid method''
   \<and> forwardRequest sample_proxy unbuildable_env sample_request =
       [DialCall [] [],
        NewRequestWithContext (WithCancel RequestContext) ''GET''
          ''http://api.moby.localhost/containers/json?all=1'' [],
        HttpError ''invalid method'' StatusInternalServerError,
        BackendClose, Cancel (WithCancel RequestContext)]
   \<and> status (client_view (forwardRequest sample_proxy unbuildable_env sample_request)) =
       StatusInternalServerError"
proof -
  have h1: "Dial sample_proxy [] [] = Inr sample_conn"
    by (simp add: sample_defs)
  have h2: "NewRequest_err unbuildable_env (Method sample_request)
      (outbound_url sample_request) = Some ''invalid method''"
    by (simp add: sample_defs)
  have v: "Method sample_request = ''GET''" "Body sample_request = []"
    "Context sample_request = RequestContext"
    "outbound_url sample_request = ''http://api.moby.localhost/containers/json?all=1''"
    by (simp_all add: sample_request_def request_defs)
  note c = request_construction_failure [OF h1 h2]
  have t: "forwardRequest sample_proxy unbuildable_env sample_request =
       [DialCall [] [],
        NewRequestWithContext (WithCancel RequestContext) ''GET''
          ''http://api.moby.localhost/containers/json?all=1'' [],
        HttpError ''invalid method'' StatusInternalServerError,
        BackendClose, Cancel (WithCancel RequestContext)]"
    using c v by simp
  have s: "status (client_view (forwardRequest sample_proxy unbuildable_env sample_request)) =
       StatusInternalServerError"
    using c by blast
  show ?thesis by (intro conjI) (rule h1 h2 t s)+
qed


lemma requestWrite_upgrade [simp]:
  "filter is_RequestWrite (handleUpgradedConnection e c) = []"
  by (auto simp: upgrade_defs split: sum.splits option.splits)

lemma requestWrite_respond [simp]:
  "filter is_RequestWrite (forwardRequest_respond e ctx c resp) = []"
  by (simp add: forwardRequest_respond_def filter_copyHeader filter_io_Copy)

lemma requestWrite_read [simp]:
  "filter is_RequestWrite (forwardRequest_read proxy e ctx c q) = []"
  by (simp add: forwardRequest_read_def split: sum.splits)



subsection \<open>After the commit\<close>

lemma dropWhile_until_Flush_hooks [simp]:
  "dropWhile (\<lambda>ev. ev \<noteq> Flush) (directorCall proxy @ t) = dropWhile (\<lambda>ev. ev \<noteq> Flush) t"
  "dropWhile (\<lambda>ev. ev \<noteq> Flush) (modifyResponseCall proxy @ t) =
   dropWhile (\<lambda>ev. ev \<noteq> Flush) t"
  using directorCall_cases [of proxy] modifyResponseCall_cases [of proxy] by auto

lemma dropWhile_until_Panic_hooks [simp]:
  "dropWhile (\<lambda>ev. ev \<noteq> Panic m) (directorCall proxy @ t) = dropWhile (\<lambda>ev. ev \<noteq> Panic m) t"
  "dropWhile (\<lambda>ev. ev \<noteq> Panic m) (modifyResponseCall proxy @ t) =
   dropWhile (\<lambda>ev. ev \<noteq> Panic m) t"
  using directorCall_cases [of proxy] modifyResponseCall_cases [of proxy] by auto

lemma flusher_upgrade [simp]:
  "filter is_GoPeriodicHttpFlush (handleUpgradedConnection e c) = []"
  by (auto simp: upgrade_defs split: sum.splits option.splits)

lemma upgrade_branch_trace:
  assumes "Dial proxy [] [] = Inr backendConn"
    and "NewRequest_err e (Method r) (outbound_url r) = None"
    and "Request_Write e (outbound proxy (WithCancel (Context r)) r) = None"
    and "ReadResponse e (outbound proxy (WithCancel (Context r)) r) = Inr backendResponse"
    and "applyModifyResponse proxy backendResponse = Inr resp"
    and "w_Flusher e"
    and "StatusCode resp = StatusSwitchingProtocols"
  shows "dropWhile (\<lambda>ev. ev \<noteq> Flush) (forwardRequest proxy e r) =
           Flush # handleUpgradedConnection e backendConn @
           [BodyClose, BackendClose, Cancel (WithCancel (Context r))]"
    and "filter is_GoPeriodicHttpFlush (forwardRequest proxy e r) = []"
  using assms
  by (simp_all add: forwardRequest_responded respond_upgrade dropWhile_copyHeader
      filter_copyHeader)

lemma stream_branch_trace:
  assumes "Dial proxy [] [] = Inr backendConn"
    and "NewRequest_err e (Method r) (outbound_url r) = None"
    and "Request_Write e (outbound proxy (WithCancel (Context r)) r) = None"
    and "ReadResponse e (outbound proxy (WithCancel (Context r)) r) = Inr backendResponse"
    and "applyModifyResponse proxy backendResponse = Inr resp"
    and "w_Flusher e"
    and "StatusCode resp \<noteq> StatusSwitchingProtocols"
  shows "dropWhile (\<lambda>ev. ev \<noteq> Flush) (forwardRequest proxy e r) =
           Flush # GoPeriodicHttpFlush (WithCancel (Context r)) #
           io_Copy (w_Write e) 0 (RespBody resp) @
           [BodyClose, BackendClose, Cancel (WithCancel (Context r))]"
    and "filter is_GoPeriodicHttpFlush (forwardRequest proxy e r) =
           [GoPeriodicHttpFlush (WithCancel (Context r))]"
    and "filter is_HijackCall (forwardRequest proxy e r) = []"
  using assms
  by (simp_all add: forwardRequest_responded respond_stream dropWhile_copyHeader
      filter_copyHeader filter_io_Copy)

text \<open>
  Claim C6. Take a run that reaches the flush of the status and header. From that flush
  on the trace is, when the status of \<^verbatim>\<open>backendResponse\<close> is 101: the upgrade handler,
  then the deferred calls, with no \<^verbatim>\<open>go periodicHttpFlush\<close> anywhere; and for every
  other status: \<^verbatim>\<open>go periodicHttpFlush(w, ctx)\<close> on the derived context (once), the body
  copy, then the deferred \<^verbatim>\<open>Body.Close\<close>, \<^verbatim>\<open>backendConn.Close\<close> and \<^verbatim>\<open>cancel\<close> of
  that same context, with no hijack anywhere.
\<close>

theorem branch_on_status:
  assumes "Dial proxy [] [] = Inr backendConn"
    and "NewRequest_err e (Method r) (outbound_url r) = None"
    and "Request_Write e (outbound proxy (WithCancel (Context r)) r) = None"
    and "ReadResponse e (outbound proxy (WithCancel (Context r)) r) = Inr backendResponse"
    and "applyModifyResponse proxy backendResponse = Inr resp"
    and "w_Flusher e"
  shows "(StatusCode resp = StatusSwitchingProtocols \<longrightarrow>
            dropWhile (\<lambda>ev. ev \<noteq> Flush) (forwardRequest proxy e r) =
              Flush # handleUpgradedConnection e backendConn @
              [BodyClose, BackendClose, Cancel (WithCancel (Context r))]
            \<and> filter is_GoPeriodicHttpFlush (forwardRequest proxy e r) = [])
         \<and> (StatusCode resp \<noteq> StatusSwitchingProtocols \<longrightarrow>
            dropWhile (\<lambda>ev. ev \<noteq> Flush) (forwardRequest proxy e r) =
              Flush # GoPeriodicHttpFlush (WithCancel (Context r)) #
              io_Copy (w_Write e) 0 (RespBody resp) @
              [BodyClose, BackendClose, Cancel (WithCancel (Context r))]
            \<and> filter is_GoPeriodicHttpFlush (forwardRequest proxy e r) =
              [GoPeriodicHttpFlush (WithCancel (Context r))]
            \<and> filter is_HijackCall (forwardRequest proxy e r) = [])"
  using upgrade_branch_trace [OF assms] stream_branch_trace [OF assms] by blast

theorem branch_on_status_witness:
  "w_Flusher sample_env
   \<and> StatusCode upgrade_response = StatusSwitchingProtocols
   \<and> StatusCode sample_response \<noteq> StatusSwitchingProtocols
   \<and> dropWhile (\<lambda>ev. ev \<noteq> Flush) (forwardRequest sample_proxy upgrade_env sample_request) =
       Flush # handleUpgradedConnection upgrade_env sample_conn @
       [BodyClose, BackendClose, Cancel (WithCancel (Context sample_request))]
   \<and> dropWhile (\<lambda>ev. ev \<noteq> Flush) (forwardRequest sample_proxy sample_env sample_request) =
       [Flush, GoPeriodicHttpFlush (WithCancel (Context sample_request)),
        Write ''hel'' None, Write ''lo'' None,
        BodyClose, BackendClose, Cancel (WithCancel (Context sample_request))]"
proof -
  have h1: "Dial sample_proxy [] [] = Inr sample_conn"
    by (simp add: sample_defs)
  have h2: "NewRequest_err sample_env (Method sample_request) (outbound_url sample_request) = None"
    by (simp add: sample_defs)
  have h3: "Request_Write sample_env
      (outbound sample_proxy (WithCancel (Context sample_request)) sample_request) = None"
    by (simp add: sample_defs)
  have h4: "ReadResponse sample_env
      (outbound sample_proxy (WithCancel (Context sample_request)) sample_request) =
      Inr sample_response"
    by (simp add: sample_defs)
  have h5: "applyModifyResponse sample_proxy sample_response = Inr sample_response"
    by (simp add: sample_defs applyModifyResponse_def)
  have h6: "w_Flusher sample_env"
    by (simp add: sample_defs)
  have u2: "NewRequest_err upgrade_env (Method sample_request) (outbound_url sample_request) = None"
    by (simp add: sample_defs)
  have u3: "Request_Write upgrade_env
      (outbound sample_proxy (WithCancel (Context sample_request)) sample_request) = None"
    by (simp add: sample_defs)
  have u4: "ReadResponse upgrade_env
      (outbound sample_proxy (WithCancel (Context sample_request)) sample_request) =
      Inr upgrade_response"
    by (simp add: sample_defs)
  have u5: "applyModifyResponse sample_proxy upgrade_response = Inr upgrade_response"
    by (simp add: sample_defs applyModifyResponse_def)
  have u6: "w_Flusher upgrade_env"
    by (simp add: sample_defs)
  have s1: "StatusCode upgrade_response = StatusSwitchingProtocols"
    by (simp add: sample_defs)
  have s2: "StatusCode sample_response \<noteq> StatusSwitchingProtocols"
    by (simp add: sample_defs)
  have c: "io_Copy (w_Write sample_env) 0 (RespBody sample_response) =
      [Write ''hel'' None, Write ''lo'' None]"
    by (simp add: sample_defs)
  have a: "dropWhile (\<lambda>ev. ev \<noteq> Flush) (forwardRequest sample_proxy upgrade_env sample_request) =
       Flush # handleUpgradedConnection upgrade_env sample_conn @
       [BodyClose, BackendClose, Cancel (WithCancel (Context sample_request))]"
    using branch_on_status [OF h1 u2 u3 u4 u5 u6] s1 by blast
  have b: "dropWhile (\<lambda>ev. ev \<noteq> Flush) (forwardRequest sample_proxy sample_env sample_request) =
       [Flush, GoPeriodicHttpFlush (WithCancel (Context sample_request)),
        Write ''hel'' None, Write ''lo'' None,
        BodyClose, BackendClose, Cancel (WithCancel (Context sample_request))]"
    using branch_on_status [OF h1 h2 h3 h4 h5 h6] s2 c by simp
  show ?thesis by (intro conjI) (rule h6 s1 s2 a b)+
qed

subsection \<open>A sink that cannot flush\<close>

text \<open>
  Claim C9, as the code has it. When \<^verbatim>\<open>w\<close> is no \<^verbatim>\<open>http.Flusher\<close> at line 150, the
  forwarder has already called \<^verbatim>\<open>WriteHeader\<close> with the status of the backend response;
  it then panics. No \<^verbatim>\<open>http.Error\<close> is called, with 500 or any other code; what
  follows the panic is the deferred \<^verbatim>\<open>Body.Close\<close>, \<^verbatim>\<open>backendConn.Close\<close> and
  \<^verbatim>\<open>cancel\<close>.
\<close>

theorem unflushable_sink_panics:
  assumes "Dial proxy [] [] = Inr backendConn"
    and "NewRequest_err e (Method r) (outbound_url r) = None"
    and "Request_Write e (outbound proxy (WithCancel (Context r)) r) = None"
    and "ReadResponse e (outbound proxy (WithCancel (Context r)) r) = Inr backendResponse"
    and "applyModifyResponse proxy backendResponse = Inr resp"
    and "\<not> w_Flusher e"
  shows "w_calls (forwardRequest proxy e r) =
           copyHeader (RespHeader resp) @ [WriteHeader (StatusCode resp)]
         \<and> filter is_HttpError (forwardRequest proxy e r) = []
         \<and> dropWhile (\<lambda>ev. ev \<noteq> Panic ''expected http.ResponseWriter to be an http.Flusher'')
             (forwardRequest proxy e r) =
           [Panic ''expected http.ResponseWriter to be an http.Flusher'',
            BodyClose, BackendClose, Cancel (WithCancel (Context r))]"
  using assms
  by (simp add: forwardRequest_responded respond_panic w_calls_def dropWhile_copyHeader
      filter_copyHeader)

theorem unflushable_sink_panics_witness:
  "\<not> w_Flusher deaf_env
   \<and> w_calls (forwardRequest sample_proxy deaf_env sample_request) =
       [HeaderAdd ''Content-Length'' ''5'', HeaderAdd ''Warning'' ''a'',
        HeaderAdd ''Warning'' ''b'', WriteHeader StatusOK]
   \<and> filter is_HttpError (forwardRequest sample_proxy deaf_env sample_request) = []"
proof -
  have h1: "Dial sample_proxy [] [] = Inr sample_conn"
    by (simp add: sample_defs)
  have h2: "NewRequest_err deaf_env (Method sample_request) (outbound_url sample_request) = None"
    by (simp add: sample_defs)
  have h3: "Request_Write deaf_env
      (outbound sample_proxy (WithCancel (Context sample_request)) sample_request) = None"
    by (simp add: sample_defs)
  have h4: "ReadResponse deaf_env
      (outbound sample_proxy (WithCancel (Context sample_request)) sample_request) =
      Inr sample_response"
    by (simp add: sample_defs)
  have h5: "applyModifyResponse sample_proxy sample_response = Inr sample_response"
    by (simp add: sample_defs applyModifyResponse_def)
  have h6: "\<not> w_Flusher deaf_env"
    by (simp add: sample_defs)
  have c: "copyHeader (RespHeader sample_response) @ [WriteHeader (StatusCode sample_response)] =
       [HeaderAdd ''Content-Length'' ''5'', HeaderAdd ''Warning'' ''a'',
        HeaderAdd ''Warning'' ''b'', WriteHeader StatusOK]"
    by (simp add: sample_defs copyHeader_def)
  from unflushable_sink_panics [OF h1 h2 h3 h4 h5 h6] c h6 show ?thesis by simp
qed

text \<open>
  The claim as the specification words it (the unflushable sink becomes a 500 response)
  fails on the sample request: the run panics after \<^verbatim>\<open>WriteHeader(200)\<close> and contains
  no \<^verbatim>\<open>http.Error\<close> call; the status committed on the writer is 200, not 500.
\<close>

theorem unflushable_sink_counterexample:
  "\<not> w_Flusher deaf_env
   \<and> forwardRequest sample_proxy deaf_env sample_request =
       [DialCall [] [],
        NewRequestWithContext (WithCancel RequestContext) ''GET''
          ''http://api.moby.localhost/containers/json?all=1'' [],
        RequestWrite
          \<lparr>Method = ''GET'', URL = ''http://api.moby.localhost/containers/json?all=1'',
           RequestURI = [], Header = [(''Accept'', [''*/*''])], Body = [], Close = False,
           Context = WithCancel RequestContext\<rparr> None,
        ReadResponseCall,
        HeaderAdd ''Content-Length'' ''5'', HeaderAdd ''Warning'' ''a'',
        HeaderAdd ''Warning'' ''b'', WriteHeader StatusOK,
        Panic ''expected http.ResponseWriter to be an http.Flusher'',
        BodyClose, BackendClose, Cancel (WithCancel RequestContext)]
   \<and> filter is_HttpError (forwardRequest sample_proxy deaf_env sample_request) = []
   \<and> status (client_view (forwardRequest sample_proxy deaf_env sample_request)) = StatusOK"
  by (simp add: sample_defs forwardRequest_def forwardRequest_send_def forwardRequest_read_def
      forwardRequest_respond_def request_defs directorCall_def modifyResponseCall_def
      applyModifyResponse_def copyHeader_def Let_def rw_defs)

subsection \<open>The upgrade handler\<close>

text \<open>
  Claim C2. When the handler starts \<^verbatim>\<open>Pipe\<close>, its trace up to that call is: the hijack;
  if the hijacked writer held bytes, one successful flush of exactly those bytes; if the
  hijacked reader held bytes, one read and one successful write to the backend connection
  of exactly those bytes, in one piece and so in their order. After \<^verbatim>\<open>Pipe\<close> returns the
  handler writes nothing more to the backend. The bytes the handler has put on the
  hijacked connection are those the writer held.
\<close>

theorem buffered_bytes_before_pipe:
  assumes "w_Hijack e = Inr (clientConn, b)"
    and "filter is_PipeCall (handleUpgradedConnection e backendConn) \<noteq> []"
  shows "handleUpgradedConnection e backendConn =
           HijackCall None #
           (if Writer_Buffered b \<noteq> [] then [WriterFlush (Writer_Buffered b) None] else []) @
           (if Reader_Buffered b \<noteq> [] then
              [ReaderRead None, BackendWrite (Reader_Buffered b) None] else []) @
           PipeCall (Pipe e clientConn backendConn) #
           (case Pipe e clientConn backendConn of
              None \<Rightarrow> [] | Some err \<Rightarrow> [HttpError err StatusInternalServerError]) @
           [ClientClose]
         \<and> sentRaw (fold rw_step (handleUpgradedConnection e backendConn) w) =
           sentRaw w @ Writer_Buffered b"
  using assms
  by (auto simp: upgrade_defs rw_Error_def rw_Write_def rw_WriteHeader_def
      split: if_splits option.splits)

theorem buffered_bytes_before_pipe_witness:
  "w_Hijack upgrade_env = Inr (sample_conn, sample_buffers)
   \<and> filter is_PipeCall (handleUpgradedConnection upgrade_env sample_conn) \<noteq> []
   \<and> handleUpgradedConnection upgrade_env sample_conn =
       [HijackCall None, WriterFlush ''xy'' None, ReaderRead None, BackendWrite ''PONG'' None,
        PipeCall None, ClientClose]
   \<and> sentRaw (fold rw_step (handleUpgradedConnection upgrade_env sample_conn) fresh_writer) =
       ''xy''"
proof -
  have h1: "w_Hijack upgrade_env = Inr (sample_conn, sample_buffers)"
    by (simp add: sample_defs)
  have h2: "filter is_PipeCall (handleUpgradedConnection upgrade_env sample_conn) \<noteq> []"
    by (simp add: sample_defs upgrade_defs)
  have v: "Writer_Buffered sample_buffers = ''xy''" "Reader_Buffered sample_buffers = ''PONG''"
    "Pipe upgrade_env sample_conn sample_conn = None"
    by (simp_all add: sample_defs)
  have t: "handleUpgradedConnection upgrade_env sample_conn =
       [HijackCall None, WriterFlush ''xy'' None, ReaderRead None, BackendWrite ''PONG'' None,
        PipeCall None, ClientClose]"
    using buffered_bytes_before_pipe [OF h1 h2, where w = fresh_writer] v by simp
  have c: "sentRaw (fold rw_step (handleUpgradedConnection upgrade_env sample_conn)
      fresh_writer) = ''xy''"
    using buffered_bytes_before_pipe [OF h1 h2, where w = fresh_writer] v
    by (simp add: fresh_writer_def)
  show ?thesis by (intro conjI) (rule h1 h2 t c)+
qed







lemma hijacked_error_sends_nothing:
  "hijacked w \<Longrightarrow>
   status (rw_Error msg code w) = status w \<and> sentHeader (rw_Error msg code w) = sentHeader w
   \<and> sentBody (rw_Error msg code w) = sentBody w \<and> sentRaw (rw_Error msg code w) = sentRaw w
   \<and> wroteHeader (rw_Error msg code w) = wroteHeader w"
  by (simp add: rw_Error_def rw_Write_def rw_WriteHeader_def)





end
